theory Spec2Isabelle
  imports Main
begin

section \<open>The action github:actions:dispatch\<close>

text \<open>
  Source: plugins/scaffolder-backend/src/scaffolder/actions/builtin/github/githubActionsDispatch.ts.
  The file defines one function, \<open>createGithubActionsDispatchAction\<close>, whose \<open>handler\<close> logs,
  parses the repository URL, checks the owner, builds a throttled Octokit client and issues
  one \<open>createWorkflowDispatch\<close> call.
\<close>

subsection \<open>Data\<close>

text \<open>
  Whatever the handler can throw. \<open>InputError\<close> is the class of @backstage/errors that the
  handler itself raises; every other exception (of a collaborator) is carried as it is.
\<close>

datatype 'x error = InputError string | OtherError 'x

text \<open>The fields of \<open>ctx.input\<close> (lines 38-44 and 84-90); a field marked ? is an option.\<close>

record action_input =
  repoUrl :: string
  workflowId :: string
  branchOrTagName :: string
  workflowInputs :: "(string \<rightharpoonup> string) option"
  token :: "string option"

text \<open>
  The argument of \<open>createGithubActionsDispatchAction\<close> (lines 32-36). The types
  \<open>ScmIntegrations\<close> and \<open>GithubCredentialsProvider\<close> are imported; they stay abstract.
\<close>

record ('i, 'c) action_options =
  integrations :: 'i
  githubCredentialsProvider :: "'c option"

text \<open>
  What the handler reads of the result of \<open>parseRepoUrl\<close> (line 96). Either component may
  be undefined or the empty string.
\<close>

record parsed_repo_url =
  owner :: "string option"
  repo :: "string option"

text \<open>
  The second argument of the throttle callbacks is \<open>opts: any\<close>; the only thing read of it
  is \<open>opts.request.retryCount\<close> (lines 113 and 117).
\<close>

record request_options =
  retryCount :: nat

record endpoint_options =
  request :: request_options

text \<open>The object literal under the key \<open>throttle\<close> (lines 110-120).\<close>

record throttle_options =
  onRateLimit :: "nat \<Rightarrow> endpoint_options \<Rightarrow> bool"
  onSecondaryRateLimit :: "nat \<Rightarrow> endpoint_options \<Rightarrow> bool"
  fallbackSecondaryRateRetryAfter :: nat

text \<open>
  The argument of \<open>new ThrottledRetry\<close> (lines 103-121): the resolved options spread into
  the object, then the key \<open>throttle\<close>, which wins over a key of that name in the spread.
\<close>

record 'o octokit_client =
  options :: 'o
  throttle :: throttle_options

text \<open>The argument of \<open>client.rest.actions.createWorkflowDispatch\<close> (lines 123-129).\<close>

record dispatch_params =
  owner :: string
  repo :: "string option"
  workflow_id :: string
  ref :: string
  inputs :: "(string \<rightharpoonup> string) option"

text \<open>
  What an invocation does that can be seen from outside, in the order it happens:
  a call of \<open>ctx.logger.info\<close>, the call of \<open>getOctokitOptions\<close> with its four named
  arguments (integrations, repoUrl, credentialsProvider, token), the construction of the
  client, and the call of the dispatch endpoint on that client.
\<close>

datatype ('i, 'c, 'o) event =
    LogInfo string
  | GetOctokitOptions 'i string "'c option" "string option"
  | NewClient "'o octokit_client"
  | CreateWorkflowDispatch "'o octokit_client" dispatch_params

text \<open>
  The collaborators that the file imports and calls: \<open>parseRepoUrl\<close> (../publish/util),
  \<open>getOctokitOptions\<close> (./helpers) and the Octokit client's
  \<open>rest.actions.createWorkflowDispatch\<close>. They are parameters of the model. The first two
  return or throw; the awaited dispatch call returns, throws, or (retrying for ever) does
  neither, which is \<open>None\<close>.
\<close>

record ('i, 'c, 'o, 'x) env =
  parseRepoUrl :: "string \<Rightarrow> 'i \<Rightarrow> 'x error + parsed_repo_url"
  getOctokitOptions :: "'i \<Rightarrow> string \<Rightarrow> 'c option \<Rightarrow> string option \<Rightarrow> 'x error + 'o"
  createWorkflowDispatch :: "'o octokit_client \<Rightarrow> dispatch_params \<Rightarrow> ('x error + unit) option"

subsection \<open>The handler\<close>

text \<open>The throttle configuration the handler passes to the client (lines 110-120).\<close>

definition handler_throttle :: throttle_options where
  "handler_throttle =
     \<lparr> onRateLimit = (\<lambda>_ opts. retryCount (request opts) < 4),
       onSecondaryRateLimit = (\<lambda>_ opts. retryCount (request opts) < 4),
       fallbackSecondaryRateRetryAfter = 5 \<rparr>"

text \<open>The two template literals of lines 93 and 131.\<close>

definition dispatching_message :: "action_input \<Rightarrow> string" where
  "dispatching_message inp =
     ''Dispatching workflow '' @ workflowId inp @ '' for repo '' @ repoUrl inp
       @ '' on '' @ branchOrTagName inp"

definition dispatched_message :: "action_input \<Rightarrow> string" where
  "dispatched_message inp = ''Workflow '' @ workflowId inp @ '' dispatched successfully''"

text \<open>
  The handler (lines 83-132). It takes the events emitted so far and returns the outcome
  with the events extended: \<open>Some (Inr ())\<close> when it returns, \<open>Some (Inl e)\<close> when it throws
  \<open>e\<close>, \<open>None\<close> when the awaited dispatch call never settles. \<open>!owner\<close> holds of undefined
  and of the empty string.
\<close>

definition handler ::
  "('i, 'c, 'o, 'x) env \<Rightarrow> ('i, 'c) action_options \<Rightarrow> action_input \<Rightarrow>
   ('i, 'c, 'o) event list \<Rightarrow> ('x error + unit) option \<times> ('i, 'c, 'o) event list" where
  "handler env opts inp tr =
     (let tr1 = tr @ [LogInfo (dispatching_message inp)] in
      case parseRepoUrl env (repoUrl inp) (integrations opts) of
        Inl e \<Rightarrow> (Some (Inl e), tr1)
      | Inr parsed \<Rightarrow>
          (case parsed_repo_url.owner parsed of
             None \<Rightarrow> (Some (Inl (InputError ''Invalid repository owner provided in repoUrl'')), tr1)
           | Some ow \<Rightarrow>
               if ow = [] then
                 (Some (Inl (InputError ''Invalid repository owner provided in repoUrl'')), tr1)
               else
                 let tr2 = tr1 @ [GetOctokitOptions (integrations opts) (repoUrl inp)
                                    (githubCredentialsProvider opts) (token inp)] in
                 (case getOctokitOptions env (integrations opts) (repoUrl inp)
                         (githubCredentialsProvider opts) (token inp) of
                    Inl e \<Rightarrow> (Some (Inl e), tr2)
                  | Inr oo \<Rightarrow>
                      let client = \<lparr> options = oo, throttle = handler_throttle \<rparr>;
                          tr3 = tr2 @ [NewClient client];
                          params = \<lparr> owner = ow,
                                     repo = parsed_repo_url.repo parsed,
                                     workflow_id = workflowId inp,
                                     ref = branchOrTagName inp,
                                     inputs = workflowInputs inp \<rparr>;
                          tr4 = tr3 @ [CreateWorkflowDispatch client params] in
                      (case createWorkflowDispatch env client params of
                         None \<Rightarrow> (None, tr4)
                       | Some (Inl e) \<Rightarrow> (Some (Inl e), tr4)
                       | Some (Inr _) \<Rightarrow>
                           (Some (Inr ()), tr4 @ [LogInfo (dispatched_message inp)])))))"

subsection \<open>Reading a trace\<close>

fun logged :: "('i, 'c, 'o) event list \<Rightarrow> string list" where
  "logged [] = []"
| "logged (LogInfo m # es) = m # logged es"
| "logged (_ # es) = logged es"

fun is_log :: "('i, 'c, 'o) event \<Rightarrow> bool" where
  "is_log (LogInfo _) = True"
| "is_log _ = False"

text \<open>
  The events other than log entries: resolving the client options, constructing the
  client, invoking the dispatch endpoint.
\<close>

definition client_activity :: "('i, 'c, 'o) event list \<Rightarrow> ('i, 'c, 'o) event list" where
  "client_activity es = filter (\<lambda>e. \<not> is_log e) es"

fun option_requests ::
  "('i, 'c, 'o) event list \<Rightarrow> ('i \<times> string \<times> 'c option \<times> string option) list" where
  "option_requests [] = []"
| "option_requests (GetOctokitOptions i u c t # es) = (i, u, c, t) # option_requests es"
| "option_requests (_ # es) = option_requests es"

fun clients :: "('i, 'c, 'o) event list \<Rightarrow> 'o octokit_client list" where
  "clients [] = []"
| "clients (NewClient c # es) = c # clients es"
| "clients (_ # es) = clients es"

fun dispatch_calls :: "('i, 'c, 'o) event list \<Rightarrow> dispatch_params list" where
  "dispatch_calls [] = []"
| "dispatch_calls (CreateWorkflowDispatch c p # es) = p # dispatch_calls es"
| "dispatch_calls (_ # es) = dispatch_calls es"

section \<open>The collaborators, as the specification describes them\<close>

subsection \<open>The throttling extension of the client\<close>

text \<open>
  A rate-limit signal of the provider: the primary one carries the wait until the quota
  resets, the secondary one a suggested wait that the provider may leave out.
\<close>

datatype rate_limit = PrimaryRateLimit nat | SecondaryRateLimit "nat option"

text \<open>
  The provider's answer to one attempt: the dispatch is accepted, the attempt is
  rate-limited (the error is the one that propagates when the policy gives up), or it is
  rejected for another reason (unknown workflow or ref, authentication, transport).
\<close>

datatype 'x response = Accepted | RateLimited rate_limit "'x error" | Rejected "'x error"

text \<open>What the client does on the network: an attempt with its retry count, a wait in seconds.\<close>

datatype net_event = Attempt nat | Wait nat

text \<open>
  Modelled from the spec: the throttling plugin (@octokit/plugin-throttling) is not in the
  source file. Section 4.1, step 5: "Secondary rate limits additionally fall back to a
  5-second wait when the provider does not supply a suggested wait time", the 5 being the
  configured \<open>fallbackSecondaryRateRetryAfter\<close>.
\<close>

definition retry_after :: "throttle_options \<Rightarrow> rate_limit \<Rightarrow> nat" where
  "retry_after th sig =
     (case sig of
        PrimaryRateLimit w \<Rightarrow> w
      | SecondaryRateLimit None \<Rightarrow> fallbackSecondaryRateRetryAfter th
      | SecondaryRateLimit (Some w) \<Rightarrow> w)"

text \<open>
  Modelled from the spec: the throttling plugin is not in the source file. Section 4.1,
  step 5: "on either rate-limit signal, inspect the attempt's retry count; permit a retry
  if ..., otherwise give up and let the error propagate". The condition is the configured
  callback of the signal's kind, called with the wait and with the options that hold the
  attempt's retry count.
\<close>

definition want_retry :: "throttle_options \<Rightarrow> rate_limit \<Rightarrow> nat \<Rightarrow> bool" where
  "want_retry th sig n =
     (case sig of
        PrimaryRateLimit _ \<Rightarrow>
          onRateLimit th (retry_after th sig) \<lparr> request = \<lparr> retryCount = n \<rparr> \<rparr>
      | SecondaryRateLimit _ \<Rightarrow>
          onSecondaryRateLimit th (retry_after th sig) \<lparr> request = \<lparr> retryCount = n \<rparr> \<rparr>)"

text \<open>
  Modelled from the spec: the throttling plugin is not in the source file. Section 4.1,
  steps 5 and 6: one logical call, "transparently retried": the first attempt has retry
  count 0; a rate-limited attempt that the policy lets retry is followed, after the wait,
  by an attempt with the next retry count; any other failure propagates. With a policy
  that always permits and a provider that always rate-limits the call never settles,
  which is \<open>None\<close>.
\<close>

partial_function (option) throttled_request ::
  "throttle_options \<Rightarrow> (nat \<Rightarrow> 'x response) \<Rightarrow> nat \<Rightarrow> net_event list \<Rightarrow>
   (('x error + unit) \<times> net_event list) option" where
  "throttled_request th srv n log =
     (case srv n of
        Accepted \<Rightarrow> Some (Inr (), log @ [Attempt n])
      | Rejected e \<Rightarrow> Some (Inl e, log @ [Attempt n])
      | RateLimited sig e \<Rightarrow>
          if want_retry th sig n
          then throttled_request th srv (Suc n) (log @ [Attempt n, Wait (retry_after th sig)])
          else Some (Inl e, log @ [Attempt n]))"

text \<open>
  Modelled from the spec: the Octokit client is not in the source file. Its dispatch call
  runs the request under the throttle policy the client was constructed with, against a
  provider that answers each attempt for the given parameters.
\<close>

definition octokit_createWorkflowDispatch ::
  "(dispatch_params \<Rightarrow> nat \<Rightarrow> 'x response) \<Rightarrow> 'o octokit_client \<Rightarrow> dispatch_params \<Rightarrow>
   ('x error + unit) option" where
  "octokit_createWorkflowDispatch provider client params =
     map_option fst (throttled_request (throttle client) (provider params) 0 [])"

subsection \<open>Resolving the client options\<close>

text \<open>The resolved client options, as far as the specification speaks of them: the credential.\<close>

record octokit_options =
  auth :: string

text \<open>
  Modelled from the spec: \<open>getOctokitOptions\<close> of ./helpers is not in the source file.
  Section 4.1, step 4: "identity/auth derived from integrations, the repo URL, optional
  explicit token, and an optional credentials provider (explicit token takes precedence
  when supplied)". The derivation from the integrations and the credentials provider is a
  parameter; it may fail.
\<close>

definition getOctokitOptions_spec ::
  "('i \<Rightarrow> string \<Rightarrow> 'c option \<Rightarrow> 'x error + string) \<Rightarrow>
   'i \<Rightarrow> string \<Rightarrow> 'c option \<Rightarrow> string option \<Rightarrow> 'x error + octokit_options" where
  "getOctokitOptions_spec derive ints url prov tok =
     (case tok of
        Some t \<Rightarrow> Inr \<lparr> auth = t \<rparr>
      | None \<Rightarrow>
          (case derive ints url prov of
             Inl e \<Rightarrow> Inl e
           | Inr a \<Rightarrow> Inr \<lparr> auth = a \<rparr>))"

section \<open>Example invocations\<close>

text \<open>
  Concrete inputs on which the properties below are exercised: the scenario of the
  specification (workflow ci.yml on main), no integrations object, no credentials
  provider, and collaborators that answer with fixed values.
\<close>

definition example_input :: "string \<Rightarrow> string option \<Rightarrow> action_input" where
  "example_input url tok =
     \<lparr> repoUrl = url, workflowId = ''ci.yml'', branchOrTagName = ''main'',
       workflowInputs = None, token = tok \<rparr>"

definition example_options :: "(unit, unit) action_options" where
  "example_options = \<lparr> integrations = (), githubCredentialsProvider = None \<rparr>"

definition stub_env ::
  "string option \<Rightarrow> string option \<Rightarrow> string error + octokit_options \<Rightarrow>
   (string error + unit) option \<Rightarrow> (unit, unit, octokit_options, string) env" where
  "stub_env ow rp resolved outcome =
     \<lparr> parseRepoUrl = (\<lambda>_ _. Inr \<lparr> parsed_repo_url.owner = ow, parsed_repo_url.repo = rp \<rparr>),
       getOctokitOptions = (\<lambda>_ _ _ _. resolved),
       createWorkflowDispatch = (\<lambda>_ _. outcome) \<rparr>"

definition octokit_env ::
  "(nat \<Rightarrow> string response) \<Rightarrow> (unit, unit, octokit_options, string) env" where
  "octokit_env srv =
     \<lparr> parseRepoUrl =
         (\<lambda>_ _. Inr \<lparr> parsed_repo_url.owner = Some ''acme'', parsed_repo_url.repo = Some ''demo'' \<rparr>),
       getOctokitOptions = getOctokitOptions_spec (\<lambda>_ _ _. Inr ''provider-token''),
       createWorkflowDispatch = octokit_createWorkflowDispatch (\<lambda>_. srv) \<rparr>"

section \<open>Properties\<close>

lemma logged_append: "logged (xs @ ys) = logged xs @ logged ys"
  by (induction xs rule: logged.induct) simp_all

lemma client_activity_append:
  "client_activity (xs @ ys) = client_activity xs @ client_activity ys"
  by (simp add: client_activity_def)

lemma option_requests_append:
  "option_requests (xs @ ys) = option_requests xs @ option_requests ys"
  by (induction xs rule: option_requests.induct) simp_all

lemma clients_append: "clients (xs @ ys) = clients xs @ clients ys"
  by (induction xs rule: clients.induct) simp_all

lemma dispatch_calls_append:
  "dispatch_calls (xs @ ys) = dispatch_calls xs @ dispatch_calls ys"
  by (induction xs rule: dispatch_calls.induct) simp_all

lemmas trace_append =
  logged_append client_activity_append option_requests_append clients_append
  dispatch_calls_append

subsection \<open>The throttled request under the handler's policy\<close>

lemma want_retry_handler_throttle: "want_retry handler_throttle sig n = (n < 4)"
  by (simp add: want_retry_def handler_throttle_def split: rate_limit.splits)

lemma throttled_request_handler_throttle:
  "throttled_request handler_throttle srv n log =
     (case srv n of
        Accepted \<Rightarrow> Some (Inr (), log @ [Attempt n])
      | Rejected e \<Rightarrow> Some (Inl e, log @ [Attempt n])
      | RateLimited sig e \<Rightarrow>
          if n < 4
          then throttled_request handler_throttle srv (Suc n)
                 (log @ [Attempt n, Wait (retry_after handler_throttle sig)])
          else Some (Inl e, log @ [Attempt n]))"
  by (subst throttled_request.simps)
     (simp add: want_retry_handler_throttle split: response.splits)

lemma throttled_request_settles_from:
  "4 - n = k \<Longrightarrow> \<exists>r. throttled_request handler_throttle srv n log = Some r"
proof (induction k arbitrary: n log)
  case 0
  then have "\<not> n < 4" by simp
  then show ?case
    by (subst throttled_request_handler_throttle) (simp split: response.splits)
next
  case (Suc k)
  then have lt: "n < 4" and "4 - Suc n = k" by simp_all
  then have "\<exists>r. throttled_request handler_throttle srv (Suc n) l = Some r" for l
    using Suc.IH by blast
  with lt show ?case
    by (subst throttled_request_handler_throttle) (simp split: response.splits)
qed

lemma throttled_request_retries:
  "(\<And>k. k < m \<Longrightarrow> n + k < 4 \<and> (\<exists>sig e. srv (n + k) = RateLimited sig e)) \<Longrightarrow>
   \<exists>log'. throttled_request handler_throttle srv n log
            = throttled_request handler_throttle srv (n + m) log'"
proof (induction m arbitrary: n log)
  case 0
  show ?case by auto
next
  case (Suc m)
  from Suc.prems [of 0] obtain sig e where lt: "n < 4" and lim: "srv n = RateLimited sig e"
    by auto
  have "\<And>k. k < m \<Longrightarrow> Suc n + k < 4 \<and> (\<exists>sig e. srv (Suc n + k) = RateLimited sig e)"
    using Suc.prems [of "Suc _"] by simp
  from Suc.IH [OF this]
  obtain log' where "throttled_request handler_throttle srv (Suc n)
        (log @ [Attempt n, Wait (retry_after handler_throttle sig)])
      = throttled_request handler_throttle srv (Suc n + m) log'"
    by blast
  with lt lim show ?case
    by (subst throttled_request_handler_throttle) auto
qed

lemma dispatch_succeeds_on_fifth_attempt:
  assumes "\<forall>n<4. \<exists>sig e. srv n = RateLimited sig e" and "srv 4 = Accepted"
  shows "map_option fst (throttled_request handler_throttle srv 0 []) = Some (Inr ())"
proof -
  from assms(1) have "\<exists>log'. throttled_request handler_throttle srv 0 []
            = throttled_request handler_throttle srv (0 + 4) log'"
    by (intro throttled_request_retries) simp
  then obtain log' where "throttled_request handler_throttle srv 0 []
            = throttled_request handler_throttle srv 4 log'" by auto
  moreover have "throttled_request handler_throttle srv 4 log' = Some (Inr (), log' @ [Attempt 4])"
    using assms(2) by (subst throttled_request_handler_throttle) simp
  ultimately show ?thesis by simp
qed

lemma dispatch_fails_on_fifth_rate_limit:
  assumes "\<forall>n<4. \<exists>sig e. srv n = RateLimited sig e" and "srv 4 = RateLimited sig e"
  shows "map_option fst (throttled_request handler_throttle srv 0 []) = Some (Inl e)"
proof -
  from assms(1) have "\<exists>log'. throttled_request handler_throttle srv 0 []
            = throttled_request handler_throttle srv (0 + 4) log'"
    by (intro throttled_request_retries) simp
  then obtain log' where "throttled_request handler_throttle srv 0 []
            = throttled_request handler_throttle srv 4 log'" by auto
  moreover have "throttled_request handler_throttle srv 4 log' = Some (Inl e, log' @ [Attempt 4])"
    using assms(2) by (subst throttled_request_handler_throttle) simp
  ultimately show ?thesis by simp
qed


lemmas example_defs =
  example_input_def example_options_def stub_env_def dispatching_message_def
  dispatched_message_def

lemma messages_differ: "dispatching_message inp \<noteq> dispatched_message inp"
  by (simp add: dispatching_message_def dispatched_message_def)

lemma handler_after_resolution:
  assumes "parseRepoUrl env (repoUrl inp) (integrations opts) = Inr parsed"
    and "parsed_repo_url.owner parsed = Some ow" and "ow \<noteq> []"
    and "getOctokitOptions env (integrations opts) (repoUrl inp)
           (githubCredentialsProvider opts) (token inp) = Inr oo"
  shows "handler env opts inp tr =
     (case createWorkflowDispatch env \<lparr> options = oo, throttle = handler_throttle \<rparr>
             \<lparr> owner = ow, repo = parsed_repo_url.repo parsed,
               workflow_id = workflowId inp, ref = branchOrTagName inp,
               inputs = workflowInputs inp \<rparr> of
        None \<Rightarrow> (None, tr @ [LogInfo (dispatching_message inp),
           GetOctokitOptions (integrations opts) (repoUrl inp)
             (githubCredentialsProvider opts) (token inp),
           NewClient \<lparr> options = oo, throttle = handler_throttle \<rparr>,
           CreateWorkflowDispatch \<lparr> options = oo, throttle = handler_throttle \<rparr>
             \<lparr> owner = ow, repo = parsed_repo_url.repo parsed,
               workflow_id = workflowId inp, ref = branchOrTagName inp,
               inputs = workflowInputs inp \<rparr>])
      | Some (Inl e) \<Rightarrow> (Some (Inl e), tr @ [LogInfo (dispatching_message inp),
           GetOctokitOptions (integrations opts) (repoUrl inp)
             (githubCredentialsProvider opts) (token inp),
           NewClient \<lparr> options = oo, throttle = handler_throttle \<rparr>,
           CreateWorkflowDispatch \<lparr> options = oo, throttle = handler_throttle \<rparr>
             \<lparr> owner = ow, repo = parsed_repo_url.repo parsed,
               workflow_id = workflowId inp, ref = branchOrTagName inp,
               inputs = workflowInputs inp \<rparr>])
      | Some (Inr _) \<Rightarrow> (Some (Inr ()), tr @ [LogInfo (dispatching_message inp),
           GetOctokitOptions (integrations opts) (repoUrl inp)
             (githubCredentialsProvider opts) (token inp),
           NewClient \<lparr> options = oo, throttle = handler_throttle \<rparr>,
           CreateWorkflowDispatch \<lparr> options = oo, throttle = handler_throttle \<rparr>
             \<lparr> owner = ow, repo = parsed_repo_url.repo parsed,
               workflow_id = workflowId inp, ref = branchOrTagName inp,
               inputs = workflowInputs inp \<rparr>,
           LogInfo (dispatched_message inp)]))"
  using assms by (simp add: handler_def Let_def split: option.splits sum.splits)

subsection \<open>Claims\<close>

text \<open>
  C1. When \<open>parseRepoUrl\<close> returns an owner that is undefined or the empty string, the
  handler throws the InputError of line 99, and the invocation adds nothing but a log
  entry to the trace: the client options are not resolved, no client is constructed and
  the dispatch endpoint is not invoked.
\<close>

theorem handler_no_owner_input_error:
  assumes "parseRepoUrl env (repoUrl inp) (integrations opts) = Inr parsed"
    and "parsed_repo_url.owner parsed = None \<or> parsed_repo_url.owner parsed = Some []"
  shows "fst (handler env opts inp tr)
           = Some (Inl (InputError ''Invalid repository owner provided in repoUrl''))
         \<and> client_activity (snd (handler env opts inp tr)) = client_activity tr
         \<and> option_requests (snd (handler env opts inp tr)) = option_requests tr
         \<and> clients (snd (handler env opts inp tr)) = clients tr
         \<and> dispatch_calls (snd (handler env opts inp tr)) = dispatch_calls tr"
  using assms by (auto simp: handler_def trace_append client_activity_def)

theorem handler_no_owner_input_error_witness:
  "fst (handler (stub_env None (Some ''demo'') (Inr \<lparr> auth = ''t'' \<rparr>) (Some (Inr ())))
          example_options (example_input ''github.com?repo=demo'' None) [])
     = Some (Inl (InputError ''Invalid repository owner provided in repoUrl''))
   \<and> client_activity (snd (handler (stub_env None (Some ''demo'')
          (Inr \<lparr> auth = ''t'' \<rparr>) (Some (Inr ())))
          example_options (example_input ''github.com?repo=demo'' None) [])) = []"
  using handler_no_owner_input_error
    [of "stub_env None (Some ''demo'') (Inr \<lparr> auth = ''t'' \<rparr>) (Some (Inr ()))"
        "example_input ''github.com?repo=demo'' None" example_options
        "\<lparr> parsed_repo_url.owner = None, parsed_repo_url.repo = Some ''demo'' \<rparr>" "[]"]
  by (simp add: example_defs client_activity_def)

text \<open>
  C2. When \<open>parseRepoUrl\<close> returns a non-empty owner, the invocation makes the dispatch
  call once the client options are resolved, and makes no dispatch call when resolving
  them throws. The one call receives the parsed owner and repo, \<open>workflow_id\<close> equal to
  \<open>workflowId\<close>, \<open>ref\<close> equal to \<open>branchOrTagName\<close> and \<open>inputs\<close> equal to
  \<open>workflowInputs\<close>, which is absent (\<open>None\<close>) when the input has none.
\<close>

theorem handler_dispatch_call_arguments:
  assumes "parseRepoUrl env (repoUrl inp) (integrations opts) = Inr parsed"
    and "parsed_repo_url.owner parsed = Some ow" and "ow \<noteq> []"
  shows "dispatch_calls (snd (handler env opts inp tr)) =
           dispatch_calls tr @
           (case getOctokitOptions env (integrations opts) (repoUrl inp)
                   (githubCredentialsProvider opts) (token inp) of
              Inl _ \<Rightarrow> []
            | Inr _ \<Rightarrow>
                [\<lparr> owner = ow,
                   repo = parsed_repo_url.repo parsed,
                   workflow_id = workflowId inp,
                   ref = branchOrTagName inp,
                   inputs = workflowInputs inp \<rparr>])"
  using assms
  by (simp add: handler_def Let_def trace_append split: sum.splits option.splits)

theorem handler_dispatch_call_arguments_witness:
  "dispatch_calls (snd (handler
       (stub_env (Some ''acme'') (Some ''demo'') (Inr \<lparr> auth = ''t'' \<rparr>) (Some (Inr ())))
       example_options
       ((example_input ''github.com?repo=demo&owner=acme'' None)
          \<lparr> workflowInputs := Some [''environment'' \<mapsto> ''staging''] \<rparr>) []))
     = [\<lparr> owner = ''acme'', repo = Some ''demo'', workflow_id = ''ci.yml'', ref = ''main'',
          inputs = Some [''environment'' \<mapsto> ''staging''] \<rparr>]
   \<and> dispatch_calls (snd (handler
       (stub_env (Some ''acme'') (Some ''demo'') (Inr \<lparr> auth = ''t'' \<rparr>) (Some (Inr ())))
       example_options (example_input ''github.com?repo=demo&owner=acme'' None) []))
     = [\<lparr> owner = ''acme'', repo = Some ''demo'', workflow_id = ''ci.yml'', ref = ''main'',
          inputs = None \<rparr>]"
  using handler_dispatch_call_arguments
    [of "stub_env (Some ''acme'') (Some ''demo'') (Inr \<lparr> auth = ''t'' \<rparr>) (Some (Inr ()))"
        "(example_input ''github.com?repo=demo&owner=acme'' None)
          \<lparr> workflowInputs := Some [''environment'' \<mapsto> ''staging''] \<rparr>"
        example_options "\<lparr> parsed_repo_url.owner = Some ''acme'', parsed_repo_url.repo = Some ''demo'' \<rparr>" "''acme''" "[]"]
    handler_dispatch_call_arguments
    [of "stub_env (Some ''acme'') (Some ''demo'') (Inr \<lparr> auth = ''t'' \<rparr>) (Some (Inr ()))"
        "example_input ''github.com?repo=demo&owner=acme'' None"
        example_options "\<lparr> parsed_repo_url.owner = Some ''acme'', parsed_repo_url.repo = Some ''demo'' \<rparr>" "''acme''" "[]"]
  by (simp add: example_defs)

text \<open>
  C3. Both callbacks of the handler's throttle configuration answer a rate-limit signal
  with "retry" exactly when the attempt's retry count is below 4, whatever the wait, and
  so does the policy on either kind of signal. Hence, in an invocation that reaches the
  dispatch call on a client that retries as the specification describes: when the
  provider rate-limits the attempts with retry counts 0 to 3 and accepts the fifth
  attempt, the handler returns and logs both messages; when it rate-limits the fifth
  attempt too, the handler throws that attempt's error and logs the first message only,
  whatever the provider would answer to a sixth attempt. Under this policy the dispatch
  call always settles.
\<close>

theorem throttle_permits_retry_below_four:
  "onRateLimit handler_throttle w ro = (retryCount (request ro) < 4)
   \<and> onSecondaryRateLimit handler_throttle w ro = (retryCount (request ro) < 4)
   \<and> want_retry handler_throttle lim n = (n < 4)
   \<and> (parseRepoUrl env (repoUrl inp) (integrations opts) = Inr parsed
        \<and> parsed_repo_url.owner parsed = Some ow \<and> ow \<noteq> []
        \<and> getOctokitOptions env (integrations opts) (repoUrl inp)
             (githubCredentialsProvider opts) (token inp) = Inr oo
        \<and> createWorkflowDispatch env = octokit_createWorkflowDispatch provider
        \<and> srv = provider \<lparr> owner = ow, repo = parsed_repo_url.repo parsed,
                   workflow_id = workflowId inp, ref = branchOrTagName inp,
                   inputs = workflowInputs inp \<rparr>
        \<and> (\<forall>k<4. \<exists>sig e. srv k = RateLimited sig e)
      \<longrightarrow> (srv 4 = Accepted
             \<longrightarrow> fst (handler env opts inp tr) = Some (Inr ())
                 \<and> logged (snd (handler env opts inp tr))
                     = logged tr @ [dispatching_message inp, dispatched_message inp])
          \<and> (srv 4 = RateLimited sig5 e5
             \<longrightarrow> fst (handler env opts inp tr) = Some (Inl e5)
                 \<and> logged (snd (handler env opts inp tr))
                     = logged tr @ [dispatching_message inp]))
   \<and> (\<exists>r. octokit_createWorkflowDispatch provider
            \<lparr> options = oo, throttle = handler_throttle \<rparr> ps = Some r)"
proof (intro conjI impI)
  show "onRateLimit handler_throttle w ro = (retryCount (request ro) < 4)"
    by (simp add: handler_throttle_def)
  show "onSecondaryRateLimit handler_throttle w ro = (retryCount (request ro) < 4)"
    by (simp add: handler_throttle_def)
  show "want_retry handler_throttle lim n = (n < 4)"
    by (rule want_retry_handler_throttle)
next
  assume run: "parseRepoUrl env (repoUrl inp) (integrations opts) = Inr parsed
        \<and> parsed_repo_url.owner parsed = Some ow \<and> ow \<noteq> []
        \<and> getOctokitOptions env (integrations opts) (repoUrl inp)
             (githubCredentialsProvider opts) (token inp) = Inr oo
        \<and> createWorkflowDispatch env = octokit_createWorkflowDispatch provider
        \<and> srv = provider \<lparr> owner = ow, repo = parsed_repo_url.repo parsed,
                   workflow_id = workflowId inp, ref = branchOrTagName inp,
                   inputs = workflowInputs inp \<rparr>
        \<and> (\<forall>k<4. \<exists>sig e. srv k = RateLimited sig e)"
  then have limited: "\<forall>k<4. \<exists>sig e. srv k = RateLimited sig e" by blast
  from run have p1: "parseRepoUrl env (repoUrl inp) (integrations opts) = Inr parsed"
    and p2: "parsed_repo_url.owner parsed = Some ow" and p3: "ow \<noteq> []"
    and p4: "getOctokitOptions env (integrations opts) (repoUrl inp)
               (githubCredentialsProvider opts) (token inp) = Inr oo"
    by blast+
  note reach = handler_after_resolution [OF p1 p2 p3 p4, of tr]
  from run have call: "createWorkflowDispatch env \<lparr> options = oo, throttle = handler_throttle \<rparr>
             \<lparr> owner = ow, repo = parsed_repo_url.repo parsed,
               workflow_id = workflowId inp, ref = branchOrTagName inp,
               inputs = workflowInputs inp \<rparr>
           = map_option fst (throttled_request handler_throttle srv 0 [])"
    by (simp add: octokit_createWorkflowDispatch_def)
  {
    assume "srv 4 = Accepted"
    with limited
    have "map_option fst (throttled_request handler_throttle srv 0 []) = Some (Inr ())"
      by (rule dispatch_succeeds_on_fifth_attempt)
    with call have ok: "createWorkflowDispatch env \<lparr> options = oo, throttle = handler_throttle \<rparr>
             \<lparr> owner = ow, repo = parsed_repo_url.repo parsed,
               workflow_id = workflowId inp, ref = branchOrTagName inp,
               inputs = workflowInputs inp \<rparr> = Some (Inr ())"
      by (simp only:)
    show "fst (handler env opts inp tr) = Some (Inr ())"
      by (simp add: reach ok)
    show "logged (snd (handler env opts inp tr))
            = logged tr @ [dispatching_message inp, dispatched_message inp]"
      by (simp add: reach ok trace_append)
  }
  {
    assume "srv 4 = RateLimited sig5 e5"
    with limited
    have "map_option fst (throttled_request handler_throttle srv 0 []) = Some (Inl e5)"
      by (rule dispatch_fails_on_fifth_rate_limit)
    with call have ko: "createWorkflowDispatch env \<lparr> options = oo, throttle = handler_throttle \<rparr>
             \<lparr> owner = ow, repo = parsed_repo_url.repo parsed,
               workflow_id = workflowId inp, ref = branchOrTagName inp,
               inputs = workflowInputs inp \<rparr> = Some (Inl e5)"
      by (simp only:)
    show "fst (handler env opts inp tr) = Some (Inl e5)"
      by (simp add: reach ko)
    show "logged (snd (handler env opts inp tr)) = logged tr @ [dispatching_message inp]"
      by (simp add: reach ko trace_append)
  }
next
  obtain r where "throttled_request handler_throttle (provider ps) 0 [] = Some r"
    using throttled_request_settles_from [OF refl] by blast
  then show "\<exists>r. octokit_createWorkflowDispatch provider
            \<lparr> options = oo, throttle = handler_throttle \<rparr> ps = Some r"
    by (simp add: octokit_createWorkflowDispatch_def)
qed

theorem throttle_permits_retry_below_four_witness:
  "fst (handler (octokit_env (\<lambda>k. if k < 4 then RateLimited (SecondaryRateLimit None)
                                             (OtherError ''secondary rate limit'')
                               else Accepted))
          example_options (example_input ''github.com?repo=demo&owner=acme'' None) [])
     = Some (Inr ())
   \<and> fst (handler (octokit_env (\<lambda>k. if k < 5 then RateLimited (PrimaryRateLimit 60)
                                             (OtherError ''rate limit exceeded'')
                               else Accepted))
          example_options (example_input ''github.com?repo=demo&owner=acme'' None) [])
     = Some (Inl (OtherError ''rate limit exceeded''))"
  using throttle_permits_retry_below_four
    [of 0 "\<lparr> request = \<lparr> retryCount = 0 \<rparr> \<rparr>" "PrimaryRateLimit 0" 0
        "octokit_env (\<lambda>k. if k < 4 then RateLimited (SecondaryRateLimit None)
                                             (OtherError ''secondary rate limit'')
                               else Accepted)"
        "example_input ''github.com?repo=demo&owner=acme'' None" example_options
        "\<lparr> parsed_repo_url.owner = Some ''acme'', parsed_repo_url.repo = Some ''demo'' \<rparr>"
        "''acme''" "\<lparr> auth = ''provider-token'' \<rparr>"
        "\<lambda>_ k. if k < 4 then RateLimited (SecondaryRateLimit None)
                                             (OtherError ''secondary rate limit'')
                               else Accepted"
        "\<lambda>k. if k < 4 then RateLimited (SecondaryRateLimit None)
                                             (OtherError ''secondary rate limit'')
                               else Accepted"
        "[]" "PrimaryRateLimit 60" "OtherError ''rate limit exceeded''"]
    throttle_permits_retry_below_four
    [of 0 "\<lparr> request = \<lparr> retryCount = 0 \<rparr> \<rparr>" "PrimaryRateLimit 0" 0
        "octokit_env (\<lambda>k. if k < 5 then RateLimited (PrimaryRateLimit 60)
                                             (OtherError ''rate limit exceeded'')
                               else Accepted)"
        "example_input ''github.com?repo=demo&owner=acme'' None" example_options
        "\<lparr> parsed_repo_url.owner = Some ''acme'', parsed_repo_url.repo = Some ''demo'' \<rparr>"
        "''acme''" "\<lparr> auth = ''provider-token'' \<rparr>"
        "\<lambda>_ k. if k < 5 then RateLimited (PrimaryRateLimit 60)
                                             (OtherError ''rate limit exceeded'')
                               else Accepted"
        "\<lambda>k. if k < 5 then RateLimited (PrimaryRateLimit 60)
                                             (OtherError ''rate limit exceeded'')
                               else Accepted"
        "[]" "PrimaryRateLimit 60" "OtherError ''rate limit exceeded''"]
  by (simp add: example_defs octokit_env_def getOctokitOptions_spec_def)

text \<open>
  C4. When the dispatch call is reached and throws an error \<open>e\<close> (whatever the client
  did not recover: retries exhausted, unknown workflow or ref, authentication or transport
  failure), the handler throws that same \<open>e\<close>; the invocation logs the first message only,
  and the success message is not among the entries it logs.
\<close>

theorem handler_propagates_dispatch_error:
  assumes "parseRepoUrl env (repoUrl inp) (integrations opts) = Inr parsed"
    and "parsed_repo_url.owner parsed = Some ow" and "ow \<noteq> []"
    and "getOctokitOptions env (integrations opts) (repoUrl inp)
           (githubCredentialsProvider opts) (token inp) = Inr oo"
    and "createWorkflowDispatch env \<lparr> options = oo, throttle = handler_throttle \<rparr>
           \<lparr> owner = ow, repo = parsed_repo_url.repo parsed, workflow_id = workflowId inp,
             ref = branchOrTagName inp, inputs = workflowInputs inp \<rparr> = Some (Inl e)"
  shows "fst (handler env opts inp tr) = Some (Inl e)
         \<and> logged (snd (handler env opts inp tr)) = logged tr @ [dispatching_message inp]
         \<and> dispatched_message inp \<notin> set (logged (drop (length tr) (snd (handler env opts inp tr))))"
  using assms
  by (simp add: handler_def Let_def trace_append messages_differ [symmetric])

theorem handler_propagates_dispatch_error_witness:
  "fst (handler (stub_env (Some ''acme'') (Some ''demo'') (Inr \<lparr> auth = ''t'' \<rparr>)
                   (Some (Inl (OtherError ''404 Not Found''))))
          example_options (example_input ''github.com?repo=demo&owner=acme'' None) [])
     = Some (Inl (OtherError ''404 Not Found''))
   \<and> logged (snd (handler (stub_env (Some ''acme'') (Some ''demo'') (Inr \<lparr> auth = ''t'' \<rparr>)
                   (Some (Inl (OtherError ''404 Not Found''))))
          example_options (example_input ''github.com?repo=demo&owner=acme'' None) []))
     = [''Dispatching workflow ci.yml for repo github.com?repo=demo&owner=acme on main'']"
  using handler_propagates_dispatch_error
    [of "stub_env (Some ''acme'') (Some ''demo'') (Inr \<lparr> auth = ''t'' \<rparr>)
           (Some (Inl (OtherError ''404 Not Found'')))"
        "example_input ''github.com?repo=demo&owner=acme'' None" example_options
        "\<lparr> parsed_repo_url.owner = Some ''acme'', parsed_repo_url.repo = Some ''demo'' \<rparr>"
        "''acme''" "\<lparr> auth = ''t'' \<rparr>" "OtherError ''404 Not Found''" "[]"]
  by (simp add: example_defs)

text \<open>
  C5. An invocation that returns normally has emitted exactly five events, in this order:
  the log entry "Dispatching workflow {workflowId} for repo {repoUrl} on
  {branchOrTagName}", the resolution of the client options, the construction of the
  client, the dispatch call (which returned), and the log entry "Workflow {workflowId}
  dispatched successfully". Its log entries are those two messages, each once, with the
  texts of lines 93 and 131 written out. The instance that follows is the scenario of the
  specification.
\<close>

theorem handler_success_trace:
  assumes "fst (handler env opts inp tr) = Some (Inr ())"
  shows "(\<exists>c p. snd (handler env opts inp tr) =
            tr @ [LogInfo (''Dispatching workflow '' @ workflowId inp @ '' for repo ''
                             @ repoUrl inp @ '' on '' @ branchOrTagName inp),
                  GetOctokitOptions (integrations opts) (repoUrl inp)
                    (githubCredentialsProvider opts) (token inp),
                  NewClient c,
                  CreateWorkflowDispatch c p,
                  LogInfo (''Workflow '' @ workflowId inp @ '' dispatched successfully'')]
            \<and> createWorkflowDispatch env c p = Some (Inr ()))
         \<and> logged (snd (handler env opts inp tr))
             = logged tr
                 @ [''Dispatching workflow '' @ workflowId inp @ '' for repo ''
                      @ repoUrl inp @ '' on '' @ branchOrTagName inp,
                    ''Workflow '' @ workflowId inp @ '' dispatched successfully'']"
  using assms
  by (auto simp: handler_def Let_def trace_append dispatching_message_def
        dispatched_message_def split: sum.splits option.splits if_splits)

theorem handler_success_trace_witness:
  "fst (handler (stub_env (Some ''acme'') (Some ''demo'') (Inr \<lparr> auth = ''t'' \<rparr>) (Some (Inr ())))
          example_options (example_input ''github.com?repo=demo&owner=acme'' None) [])
     = Some (Inr ())
   \<and> logged (snd (handler (stub_env (Some ''acme'') (Some ''demo'') (Inr \<lparr> auth = ''t'' \<rparr>)
                   (Some (Inr ())))
          example_options (example_input ''github.com?repo=demo&owner=acme'' None) []))
     = [''Dispatching workflow ci.yml for repo github.com?repo=demo&owner=acme on main'',
        ''Workflow ci.yml dispatched successfully'']"
proof -
  have ok: "fst (handler (stub_env (Some ''acme'') (Some ''demo'') (Inr \<lparr> auth = ''t'' \<rparr>) (Some (Inr ())))
          example_options (example_input ''github.com?repo=demo&owner=acme'' None) [])
     = Some (Inr ())"
    by (simp add: handler_def Let_def example_defs)
  from handler_success_trace [OF ok] show ?thesis
    using ok by (simp add: example_defs)
qed

text \<open>
  C6. When the input supplies a token and the owner is non-empty, \<open>getOctokitOptions\<close> is
  called once, with the integrations, the repoUrl, the credentials provider of the action
  and exactly that token. The client is constructed from the options that call resolves.
  With the resolution the specification describes, the client's credential is the token,
  whatever the derivation from the credentials provider would give.
\<close>

theorem handler_passes_explicit_token:
  assumes "parseRepoUrl env (repoUrl inp) (integrations opts) = Inr parsed"
    and "parsed_repo_url.owner parsed = Some ow" and "ow \<noteq> []"
    and "token inp = Some t"
  shows "option_requests (snd (handler env opts inp tr))
           = option_requests tr
               @ [(integrations opts, repoUrl inp, githubCredentialsProvider opts, Some t)]
         \<and> (getOctokitOptions env (integrations opts) (repoUrl inp)
               (githubCredentialsProvider opts) (Some t) = Inr oo
             \<longrightarrow> clients (snd (handler env opts inp tr))
                   = clients tr @ [\<lparr> options = oo, throttle = handler_throttle \<rparr>])
         \<and> (getOctokitOptions env = getOctokitOptions_spec derive
             \<longrightarrow> clients (snd (handler env opts inp tr))
                   = clients tr @ [\<lparr> options = \<lparr> auth = t \<rparr>, throttle = handler_throttle \<rparr>])"
  using assms
  by (simp add: handler_def Let_def trace_append getOctokitOptions_spec_def
           split: sum.splits option.splits)

theorem handler_passes_explicit_token_witness:
  "option_requests (snd (handler (octokit_env (\<lambda>_. Accepted)) example_options
       (example_input ''github.com?repo=demo&owner=acme'' (Some ''explicit-token'')) []))
     = [((), ''github.com?repo=demo&owner=acme'', None, Some ''explicit-token'')]
   \<and> clients (snd (handler (octokit_env (\<lambda>_. Accepted)) example_options
       (example_input ''github.com?repo=demo&owner=acme'' (Some ''explicit-token'')) []))
     = [\<lparr> options = \<lparr> auth = ''explicit-token'' \<rparr>, throttle = handler_throttle \<rparr>]"
  using handler_passes_explicit_token
    [of "octokit_env (\<lambda>_. Accepted)"
        "example_input ''github.com?repo=demo&owner=acme'' (Some ''explicit-token'')"
        example_options
        "\<lparr> parsed_repo_url.owner = Some ''acme'', parsed_repo_url.repo = Some ''demo'' \<rparr>"
        "''acme''" "''explicit-token''" "[]" "\<lparr> auth = ''explicit-token'' \<rparr>"
        "\<lambda>_ _ _. Inr ''provider-token''"]
  by (simp add: example_defs octokit_env_def)

text \<open>
  C7. The handler configures \<open>fallbackSecondaryRateRetryAfter\<close> as 5. For a secondary
  rate-limit signal without a suggested wait, the wait under the handler's policy is
  therefore 5 seconds, and a retried attempt (retry count below 4) is followed by a wait
  of 5 before the next attempt.
\<close>

theorem secondary_rate_limit_falls_back_to_five:
  "fallbackSecondaryRateRetryAfter handler_throttle = 5
   \<and> retry_after handler_throttle (SecondaryRateLimit None) = 5
   \<and> (srv n = RateLimited (SecondaryRateLimit None) e \<and> n < 4
      \<longrightarrow> throttled_request handler_throttle srv n log
          = throttled_request handler_throttle srv (Suc n) (log @ [Attempt n, Wait 5]))"
  by (subst throttled_request_handler_throttle)
     (simp add: retry_after_def handler_throttle_def)

theorem secondary_rate_limit_falls_back_to_five_witness:
  "throttled_request handler_throttle
     (\<lambda>k. if k = 0 then RateLimited (SecondaryRateLimit None) (OtherError ''secondary rate limit'')
          else Accepted) 0 []
     = Some (Inr (), [Attempt 0, Wait 5, Attempt 1])"
  using secondary_rate_limit_falls_back_to_five
    [of "\<lambda>k. if k = 0 then RateLimited (SecondaryRateLimit None) (OtherError ''secondary rate limit'')
          else Accepted" 0 "OtherError ''secondary rate limit''" "[]"]
  by (simp add: throttled_request_handler_throttle [of _ "Suc 0"])

text \<open>
  C8. When \<open>parseRepoUrl\<close> returns an owner that is undefined or the empty string, the
  invocation still emits the log entry "Dispatching workflow ..." exactly once, as its
  only event, before the InputError is thrown.
\<close>

theorem handler_no_owner_still_logs:
  assumes "parseRepoUrl env (repoUrl inp) (integrations opts) = Inr parsed"
    and "parsed_repo_url.owner parsed = None \<or> parsed_repo_url.owner parsed = Some []"
  shows "snd (handler env opts inp tr) = tr @ [LogInfo (dispatching_message inp)]
         \<and> logged (snd (handler env opts inp tr)) = logged tr @ [dispatching_message inp]
         \<and> fst (handler env opts inp tr)
             = Some (Inl (InputError ''Invalid repository owner provided in repoUrl''))"
  using assms by (auto simp: handler_def trace_append)

theorem handler_no_owner_still_logs_witness:
  "snd (handler (stub_env (Some []) (Some ''demo'') (Inr \<lparr> auth = ''t'' \<rparr>) (Some (Inr ())))
          example_options (example_input ''github.com?repo=demo&owner='' None) [])
     = [LogInfo ''Dispatching workflow ci.yml for repo github.com?repo=demo&owner= on main'']
   \<and> fst (handler (stub_env (Some []) (Some ''demo'') (Inr \<lparr> auth = ''t'' \<rparr>) (Some (Inr ())))
          example_options (example_input ''github.com?repo=demo&owner='' None) [])
     = Some (Inl (InputError ''Invalid repository owner provided in repoUrl''))"
  using handler_no_owner_still_logs
    [of "stub_env (Some []) (Some ''demo'') (Inr \<lparr> auth = ''t'' \<rparr>) (Some (Inr ()))"
        "example_input ''github.com?repo=demo&owner='' None" example_options
        "\<lparr> parsed_repo_url.owner = Some [], parsed_repo_url.repo = Some ''demo'' \<rparr>" "[]"]
  by (simp add: example_defs)

text \<open>
  C9. Only the owner is checked. When \<open>parseRepoUrl\<close> returns a non-empty owner and a repo
  that is undefined or the empty string, the handler raises no error of its own: it goes
  on to resolve the client options, and its outcome is the error of that resolution or
  else the outcome of the dispatch call, which is issued with that repo value.
\<close>

theorem handler_does_not_validate_repo:
  assumes "parseRepoUrl env (repoUrl inp) (integrations opts) = Inr parsed"
    and "parsed_repo_url.owner parsed = Some ow" and "ow \<noteq> []"
    and "parsed_repo_url.repo parsed = None \<or> parsed_repo_url.repo parsed = Some []"
  shows "fst (handler env opts inp tr) =
           (case getOctokitOptions env (integrations opts) (repoUrl inp)
                   (githubCredentialsProvider opts) (token inp) of
              Inl e \<Rightarrow> Some (Inl e)
            | Inr oo \<Rightarrow>
                createWorkflowDispatch env \<lparr> options = oo, throttle = handler_throttle \<rparr>
                  \<lparr> owner = ow, repo = parsed_repo_url.repo parsed,
                    workflow_id = workflowId inp, ref = branchOrTagName inp,
                    inputs = workflowInputs inp \<rparr>)
         \<and> dispatch_calls (snd (handler env opts inp tr)) =
             dispatch_calls tr @
             (case getOctokitOptions env (integrations opts) (repoUrl inp)
                     (githubCredentialsProvider opts) (token inp) of
                Inl _ \<Rightarrow> []
              | Inr _ \<Rightarrow>
                  [\<lparr> owner = ow, repo = parsed_repo_url.repo parsed,
                     workflow_id = workflowId inp, ref = branchOrTagName inp,
                     inputs = workflowInputs inp \<rparr>])"
  using assms(1-3)
  by (simp add: handler_def Let_def trace_append split: sum.splits option.splits)

theorem handler_does_not_validate_repo_witness:
  "fst (handler (stub_env (Some ''acme'') None (Inr \<lparr> auth = ''t'' \<rparr>) (Some (Inr ())))
          example_options (example_input ''github.com?owner=acme'' None) [])
     = Some (Inr ())
   \<and> dispatch_calls (snd (handler
          (stub_env (Some ''acme'') None (Inr \<lparr> auth = ''t'' \<rparr>) (Some (Inr ())))
          example_options (example_input ''github.com?owner=acme'' None) []))
     = [\<lparr> owner = ''acme'', repo = None, workflow_id = ''ci.yml'', ref = ''main'',
          inputs = None \<rparr>]"
  using handler_does_not_validate_repo
    [of "stub_env (Some ''acme'') None (Inr \<lparr> auth = ''t'' \<rparr>) (Some (Inr ()))"
        "example_input ''github.com?owner=acme'' None" example_options
        "\<lparr> parsed_repo_url.owner = Some ''acme'', parsed_repo_url.repo = None \<rparr>"
        "''acme''" "[]"]
  by (simp add: example_defs)

text \<open>
  C10. The two callbacks of the handler's throttle configuration depend on the retry count
  alone: on options with equal retry counts each returns the same answer for any two
  waits, and the primary and the secondary callback return the same answer.
\<close>

theorem retry_predicates_agree:
  assumes "retryCount (request o1) = retryCount (request o2)"
  shows "onRateLimit handler_throttle w1 o1 = onRateLimit handler_throttle w2 o2
         \<and> onSecondaryRateLimit handler_throttle w1 o1
             = onSecondaryRateLimit handler_throttle w2 o2
         \<and> onRateLimit handler_throttle w1 o1 = onSecondaryRateLimit handler_throttle w2 o2"
  using assms by (simp add: handler_throttle_def)

theorem retry_predicates_agree_witness:
  "onRateLimit handler_throttle 0 \<lparr> request = \<lparr> retryCount = 3 \<rparr> \<rparr>
     = onSecondaryRateLimit handler_throttle 60 \<lparr> request = \<lparr> retryCount = 3 \<rparr> \<rparr>
   \<and> onRateLimit handler_throttle 0 \<lparr> request = \<lparr> retryCount = 4 \<rparr> \<rparr>
     = onRateLimit handler_throttle 60 \<lparr> request = \<lparr> retryCount = 4 \<rparr> \<rparr>"
  using retry_predicates_agree
    [of "\<lparr> request = \<lparr> retryCount = 3 \<rparr> \<rparr>" "\<lparr> request = \<lparr> retryCount = 3 \<rparr> \<rparr>" 0 60]
    retry_predicates_agree
    [of "\<lparr> request = \<lparr> retryCount = 4 \<rparr> \<rparr>" "\<lparr> request = \<lparr> retryCount = 4 \<rparr> \<rparr>" 0 60]
  by blast

end
